theory Spec2Isabelle
  imports Complex_Main "HOL-Library.Sublist"
begin

section \<open>JavaScript values of the data model\<close>

text \<open>
  A JavaScript number is an IEEE double. A finite double is a rational number, and the
  comparisons of the program are exact on them, so a finite number is modelled by its
  rational value; the two zeros, which compare equal, are one value. In-range rounding
  of a quotient or of a decimal literal to the nearest double is not modelled.
\<close>

datatype jsnum = NaN | NegInf | Fin rat | PosInf

text \<open>
  A value of the data model's type \<open>number?\<close>: \<open>null\<close>, \<open>undefined\<close> (a missing
  property) or a number.
\<close>

datatype jsval = Null | Undefined | Num jsnum

fun Number_isNaN :: "jsval \<Rightarrow> bool" where
  "Number_isNaN (Num NaN) = True"
| "Number_isNaN _ = False"


text \<open>The operator \<open>>=\<close> on two numbers: false as soon as one operand is NaN.\<close>

fun js_ge :: "jsnum \<Rightarrow> jsnum \<Rightarrow> bool" where
  "js_ge NaN _ = False"
| "js_ge _ NaN = False"
| "js_ge PosInf _ = True"
| "js_ge _ NegInf = True"
| "js_ge NegInf _ = False"
| "js_ge _ PosInf = False"
| "js_ge (Fin a) (Fin b) = (b \<le> a)"

text \<open>
  On the values of \<open>number?\<close> the operator is only reached with two numbers; \<open>null\<close>
  converts to 0 and \<open>undefined\<close> to NaN.
\<close>

fun ToNumber :: "jsval \<Rightarrow> jsnum" where
  "ToNumber Null = Fin 0"
| "ToNumber Undefined = NaN"
| "ToNumber (Num n) = n"

definition ge :: "jsval \<Rightarrow> jsval \<Rightarrow> bool" where
  "ge a b = js_ge (ToNumber a) (ToNumber b)"

section \<open>The requirement comparator\<close>

datatype status = Unknown | Good | Bad

text \<open>
  The text of a comparison is one of four templates; the two that print the operands
  keep them as values.
\<close>

datatype cmp_message =
    No_numeric_requirement
  | Your_value_missing
  | Meets jsval jsval
  | Below jsval jsval

record cmp =
  status :: status
  text_of :: cmp_message

definition compareNumeric :: "jsval \<Rightarrow> jsval \<Rightarrow> cmp" where
  "compareNumeric userVal reqVal =
     (if reqVal = Null \<or> reqVal = Undefined \<or> Number_isNaN reqVal
        then \<lparr>status = Unknown, text_of = No_numeric_requirement\<rparr>
      else if userVal = Null \<or> userVal = Undefined \<or> Number_isNaN userVal
        then \<lparr>status = Unknown, text_of = Your_value_missing\<rparr>
      else if ge userVal reqVal
        then \<lparr>status = Good, text_of = Meets userVal reqVal\<rparr>
      else \<lparr>status = Bad, text_of = Below userVal reqVal\<rparr>)"

fun badgeClass :: "status \<Rightarrow> string" where
  "badgeClass Good = ''badge good''"
| "badgeClass Bad = ''badge bad''"
| "badgeClass Unknown = ''badge warn''"

section \<open>Strings\<close>

text \<open>
  Strings are lists of characters. The model of \<open>trim\<close> strips the ASCII white space
  and line terminators (tab, line feed, vertical tab, form feed, carriage return, space),
  and the model of \<open>toLowerCase\<close> maps the letters A to Z and leaves every other
  character as it is: both are the JavaScript functions on ASCII text.
\<close>

definition isWhiteSpace :: "char \<Rightarrow> bool" where
  "isWhiteSpace c = (of_char c \<in> {9, 10, 11, 12, 13, 32 :: nat})"

definition trim :: "string \<Rightarrow> string" where
  "trim s = rev (dropWhile isWhiteSpace (rev (dropWhile isWhiteSpace s)))"

definition lowerChar :: "char \<Rightarrow> char" where
  "lowerChar c =
     (let n = (of_char c :: nat) in if 65 \<le> n \<and> n \<le> 90 then char_of (n + 32) else c)"

definition toLowerCase :: "string \<Rightarrow> string" where
  "toLowerCase s = map lowerChar s"

text \<open>\<open>s.includes(q)\<close>: \<open>q\<close> occurs in \<open>s\<close> as a contiguous run.\<close>

fun String_includes :: "string \<Rightarrow> string \<Rightarrow> bool" where
  "String_includes [] q = (q = [])"
| "String_includes (c # s) q = (prefix q (c # s) \<or> String_includes s q)"

text \<open>\<open>String(n)\<close> of an integer and \<open>padStart\<close>.\<close>

fun digits :: "nat \<Rightarrow> string" where
  "digits n = (if n < 10 then [char_of (48 + n)] else digits (n div 10) @ [char_of (48 + n mod 10)])"

declare digits.simps [simp del]

definition String_int :: "int \<Rightarrow> string" where
  "String_int i = (if i < 0 then CHR ''-'' # digits (nat (- i)) else digits (nat i))"

definition padStart :: "nat \<Rightarrow> char \<Rightarrow> string \<Rightarrow> string" where
  "padStart n c s = replicate (n - length s) c @ s"

section \<open>The data model\<close>

record requirement =
  os :: "string option"
  cpu :: "string option"
  gpu :: "string option"
  ram_gb :: jsval
  vram_gb :: jsval
  storage_gb :: jsval
  directx :: jsval
  opengl :: jsval
  vulkan :: "bool option"
  notes' :: "string option"

record app_detail =
  appid :: int
  name :: "string option"
  type :: "string option"
  requirements :: "(string \<times> (string \<times> requirement option) list) list option"

type_synonym shard = "app_detail list"

record app_summary =
  appid :: int
  name :: "string option"
  type :: "string option"
  has_requirements :: bool

record index =
  total_apps :: int
  shard_size :: int
  apps :: "app_summary list"

text \<open>
  The user profile, as the profile form builds it: each text field a string or
  \<open>null\<close>, each numeric field a finite number or \<open>null\<close> (\<open>None\<close>).
\<close>

record specs =
  cpu :: "string option"
  gpu :: "string option"
  ram_gb :: "rat option"
  vram_gb :: "rat option"
  storage_gb :: "rat option"

record state =
  index :: "index option"
  filtered :: "app_summary list"
  selected :: "app_detail option"
  specs :: "specs option"
  shardCache :: "int \<rightharpoonup> shard"

datatype error = TypeError | SyntaxError | Error string

section \<open>Shard addressing\<close>




section \<open>The shard loader and its cache\<close>

text \<open>
  The network is a function from the URL to what \<open>fetch\<close> gives: \<open>None\<close> when the
  promise rejects (no connection), else a response with its \<open>ok\<close> flag and the value
  \<open>res.json()\<close> resolves to (\<open>None\<close> when the body is not JSON). A call of \<open>loadShard\<close>
  is modelled run to its end: it returns its result or error, the state after it, and
  the URLs it fetched.
\<close>

datatype response = Response (ok: bool) (json: "shard option")

type_synonym network = "string \<Rightarrow> response option"

definition shardUrl :: "int \<Rightarrow> string" where
  "shardUrl shardId = ''data/shards/shard_'' @ padStart 5 CHR ''0'' (String_int shardId) @ ''.json''"

definition loadShard :: "network \<Rightarrow> int \<Rightarrow> state \<Rightarrow> (error + shard) \<times> state \<times> string list" where
  "loadShard fetch shardId st =
     (case shardCache st shardId of
        Some data \<Rightarrow> (Inr data, st, [])
      | None \<Rightarrow>
          (let url = shardUrl shardId in
           case fetch url of
             None \<Rightarrow> (Inl TypeError, st, [url])
           | Some res \<Rightarrow>
               if \<not> ok res
                 then (Inl (Error (''Failed to load shard '' @ String_int shardId)), st, [url])
               else (case json res of
                       None \<Rightarrow> (Inl SyntaxError, st, [url])
                     | Some data \<Rightarrow>
                         (Inr data, st\<lparr>shardCache := (shardCache st)(shardId \<mapsto> data)\<rparr>, [url]))))"

text \<open>
  \<open>await fetch(url)\<close> suspends the call: other calls can run between the test of the
  cache and what follows the response. The two parts of \<open>loadShard\<close>, each run without
  interruption: the first returns the cached data or leaves the call waiting for the
  fetch of the URL; the second takes what the fetch gave and throws, or stores the data
  and returns it.
\<close>

datatype started = Hit shard | Pending string

definition loadShard_start :: "int \<Rightarrow> state \<Rightarrow> started" where
  "loadShard_start shardId st =
     (case shardCache st shardId of
        Some data \<Rightarrow> Hit data
      | None \<Rightarrow> Pending (shardUrl shardId))"

definition loadShard_resume :: "int \<Rightarrow> response option \<Rightarrow> state \<Rightarrow> (error + shard) \<times> state" where
  "loadShard_resume shardId fetched st =
     (case fetched of
        None \<Rightarrow> (Inl TypeError, st)
      | Some res \<Rightarrow>
          if \<not> ok res
            then (Inl (Error (''Failed to load shard '' @ String_int shardId)), st)
          else (case json res of
                  None \<Rightarrow> (Inl SyntaxError, st)
                | Some data \<Rightarrow>
                    (Inr data, st\<lparr>shardCache := (shardCache st)(shardId \<mapsto> data)\<rparr>)))"


section \<open>The catalog filter\<close>

text \<open>
  \<open>applyFilters\<close> reads the search box and the category selector, and writes
  \<open>state.filtered\<close>; \<open>renderList\<close>, which it calls last, only writes the page.
\<close>

definition applyFilters :: "string \<Rightarrow> string \<Rightarrow> state \<Rightarrow> error + state" where
  "applyFilters search_value filter_value st =
     (let q = toLowerCase (trim search_value);
          mode = filter_value
      in case index st of
           None \<Rightarrow> Inl TypeError
         | Some idx \<Rightarrow>
             (let apps0 = apps idx;
                  apps1 = (if mode = ''game''
                           then filter (\<lambda>a. app_summary.type a = Some ''game'') apps0 else apps0);
                  apps2 = (if mode = ''dlc''
                           then filter (\<lambda>a. app_summary.type a = Some ''dlc'') apps1 else apps1);
                  apps3 = (if mode = ''hasreqs''
                           then filter (\<lambda>a. has_requirements a) apps2 else apps2);
                  apps4 = (if q \<noteq> []
                           then filter (\<lambda>a. String_includes
                                  (toLowerCase (case app_summary.name a of None \<Rightarrow> [] | Some n \<Rightarrow> n)) q) apps3
                           else apps3)
              in Inr (st\<lparr>filtered := take 200 apps4\<rparr>)))"

section \<open>The local profile store\<close>

text \<open>
  A string kept in \<open>localStorage\<close> is represented by what \<open>JSON.parse\<close> makes of it:
  the empty string, a non-empty string that is not JSON (\<open>JSON.parse\<close> throws a
  SyntaxError), or the JSON text of a value. The values are those of the data model: a
  profile or \<open>null\<close> (\<open>None\<close>). \<open>JSON.stringify\<close> of such a value is its JSON text.
\<close>

datatype stored = Empty_string | Malformed | JSON_text "specs option"

type_synonym localStorage = "string \<rightharpoonup> stored"

definition JSON_parse :: "stored \<Rightarrow> error + specs option" where
  "JSON_parse raw = (case raw of JSON_text v \<Rightarrow> Inr v | _ \<Rightarrow> Inl SyntaxError)"

definition JSON_stringify :: "specs option \<Rightarrow> stored" where
  "JSON_stringify v = JSON_text v"

text \<open>
  \<open>try { ... } catch { ... }\<close>: the handler runs on the error of the block. A function
  that can throw returns \<open>Inl\<close> of the error.
\<close>

definition try_catch :: "error + 'a \<Rightarrow> (error \<Rightarrow> error + 'a) \<Rightarrow> error + 'a" where
  "try_catch block handler = (case block of Inl e \<Rightarrow> handler e | Inr v \<Rightarrow> Inr v)"

definition loadSpecs :: "localStorage \<Rightarrow> error + specs option" where
  "loadSpecs ls =
     try_catch
       (case ls ''steamSpecChecker_specs'' of
          None \<Rightarrow> Inr None
        | Some raw \<Rightarrow> if raw = Empty_string then Inr None else JSON_parse raw)
       (\<lambda>e. Inr None)"

definition saveSpecs :: "specs \<Rightarrow> localStorage \<Rightarrow> localStorage" where
  "saveSpecs sp ls = ls(''steamSpecChecker_specs'' \<mapsto> JSON_stringify (Some sp))"

definition clearSpecs :: "localStorage \<Rightarrow> localStorage" where
  "clearSpecs ls = ls(''steamSpecChecker_specs'' := None)"

section \<open>Reading the profile form\<close>

















section \<open>The requirement card\<close>

text \<open>
  \<open>userSpecs?.f\<close> for a numeric field \<open>f\<close> of the profile: \<open>undefined\<close> when there is
  no profile.
\<close>

definition optional_field :: "(specs \<Rightarrow> rat option) \<Rightarrow> specs option \<Rightarrow> jsval" where
  "optional_field f userSpecs =
     (case userSpecs of
        None \<Rightarrow> Undefined
      | Some sp \<Rightarrow> (case f sp of None \<Rightarrow> Null | Some r \<Rightarrow> Num (Fin r)))"

definition pickReq :: "app_detail \<Rightarrow> string \<Rightarrow> string \<Rightarrow> requirement option" where
  "pickReq app platform level =
     (case requirements app of
        None \<Rightarrow> None
      | Some ps \<Rightarrow>
          (case map_of ps platform of
             None \<Rightarrow> None
           | Some ls \<Rightarrow> (case map_of ls level of None \<Rightarrow> None | Some req \<Rightarrow> req)))"

text \<open>
  The card is the HTML text the function returns; the model keeps its parts that come
  from the comparison: the class and the label of the badge in the title, and the three
  comparisons with whether their texts are printed. \<open>None\<close> is the card with the
  badge "Missing", returned when there is no requirement record.
\<close>

record req_card =
  card_title :: string
  badge_class :: string
  badge_label :: string
  ramCmp :: cmp
  vramCmp :: cmp
  stoCmp :: cmp
  texts_shown :: bool

definition renderReqCard :: "string \<Rightarrow> requirement option \<Rightarrow> specs option \<Rightarrow> req_card option" where
  "renderReqCard title req userSpecs =
     (case req of
        None \<Rightarrow> None
      | Some r \<Rightarrow>
          (let ramCmp = compareNumeric (optional_field specs.ram_gb userSpecs) (requirement.ram_gb r);
               vramCmp = compareNumeric (optional_field specs.vram_gb userSpecs) (requirement.vram_gb r);
               stoCmp = compareNumeric (optional_field specs.storage_gb userSpecs) (requirement.storage_gb r)
           in Some \<lparr>card_title = title,
                    badge_class = badgeClass
                      (if status ramCmp = Bad \<or> status vramCmp = Bad \<or> status stoCmp = Bad
                       then Bad else Good),
                    badge_label = (if userSpecs \<noteq> None then ''Compared'' else ''Set your specs''),
                    ramCmp = ramCmp, vramCmp = vramCmp, stoCmp = stoCmp,
                    texts_shown = (userSpecs \<noteq> None)\<rparr>))"

section \<open>The catalog filter, as specified\<close>

text \<open>
  The three steps of the specification: the category filter of the mode, the text filter
  of the trimmed query (none when it is empty; an entry with no name has no match), and
  the first 200 of what is left.
\<close>

definition category_match :: "string \<Rightarrow> app_summary \<Rightarrow> bool" where
  "category_match mode a =
     (if mode = ''game'' then app_summary.type a = Some ''game''
      else if mode = ''dlc'' then app_summary.type a = Some ''dlc''
      else if mode = ''hasreqs'' then has_requirements a = True
      else True)"

definition contains_ci :: "string \<Rightarrow> string \<Rightarrow> bool" where
  "contains_ci n q = String_includes (toLowerCase n) (toLowerCase q)"

definition text_match :: "string \<Rightarrow> app_summary \<Rightarrow> bool" where
  "text_match query a =
     (let q = trim query in
      if q = [] then True
      else (case app_summary.name a of None \<Rightarrow> False | Some n \<Rightarrow> contains_ci n q))"

definition catalog_filter :: "app_summary list \<Rightarrow> string \<Rightarrow> string \<Rightarrow> app_summary list" where
  "catalog_filter as query mode = take 200 (filter (text_match query) (filter (category_match mode) as))"


section \<open>The comparator\<close>



section \<open>The catalog filter\<close>

lemma String_includes_iff: "String_includes s q \<longleftrightarrow> (\<exists>ps ss. s = ps @ q @ ss)"
proof (induction s)
  case Nil
  then show ?case by auto
next
  case (Cons c s)
  have "(\<exists>ps ss. c # s = ps @ q @ ss) \<longleftrightarrow> prefix q (c # s) \<or> (\<exists>ps ss. s = ps @ q @ ss)"
  proof
    assume "\<exists>ps ss. c # s = ps @ q @ ss"
    then obtain ps ss where e: "c # s = ps @ q @ ss" by blast
    show "prefix q (c # s) \<or> (\<exists>ps ss. s = ps @ q @ ss)"
    proof (cases ps)
      case Nil
      with e show ?thesis by (auto simp: prefix_def)
    next
      case (Cons p ps')
      with e have "s = ps' @ q @ ss" by simp
      then show ?thesis by blast
    qed
  next
    assume "prefix q (c # s) \<or> (\<exists>ps ss. s = ps @ q @ ss)"
    then show "\<exists>ps ss. c # s = ps @ q @ ss"
    proof
      assume "prefix q (c # s)"
      then obtain ss where "c # s = q @ ss" by (auto simp: prefix_def)
      then have "c # s = [] @ q @ ss" by simp
      then show ?thesis by blast
    next
      assume "\<exists>ps ss. s = ps @ q @ ss"
      then obtain ps ss where "s = ps @ q @ ss" by blast
      then have "c # s = (c # ps) @ q @ ss" by simp
      then show ?thesis by blast
    qed
  qed
  with Cons.IH show ?case by simp
qed

lemma contains_ci_iff:
  "contains_ci n q \<longleftrightarrow> (\<exists>ps w ss. n = ps @ w @ ss \<and> toLowerCase w = toLowerCase q)"
proof
  assume "contains_ci n q"
  then have "\<exists>ps' ss'. map lowerChar n = ps' @ map lowerChar q @ ss'"
    by (simp add: contains_ci_def String_includes_iff toLowerCase_def)
  then obtain ps' ss' where "map lowerChar n = ps' @ map lowerChar q @ ss'" by blast
  then obtain ps r where n: "n = ps @ r" and r: "map lowerChar r = map lowerChar q @ ss'"
    using map_eq_append_conv [of lowerChar n ps' "map lowerChar q @ ss'"] by auto
  obtain w ss where "r = w @ ss" and "map lowerChar w = map lowerChar q"
    using r map_eq_append_conv [of lowerChar r "map lowerChar q" ss'] by auto
  with n show "\<exists>ps w ss. n = ps @ w @ ss \<and> toLowerCase w = toLowerCase q"
    by (auto simp: toLowerCase_def)
next
  assume "\<exists>ps w ss. n = ps @ w @ ss \<and> toLowerCase w = toLowerCase q"
  then obtain ps w ss where "n = ps @ w @ ss" and "toLowerCase w = toLowerCase q" by blast
  then have "toLowerCase n = toLowerCase ps @ toLowerCase q @ toLowerCase ss"
    by (simp add: toLowerCase_def)
  then show "contains_ci n q"
    unfolding contains_ci_def String_includes_iff by blast
qed

lemma String_includes_Nil [simp]: "String_includes s []"
  by (cases s) simp_all

lemma applyFilters_eq:
  "applyFilters query mode st =
     (case index st of
        None \<Rightarrow> Inl TypeError
      | Some idx \<Rightarrow> Inr (st\<lparr>filtered := catalog_filter (apps idx) query mode\<rparr>))"
proof (cases "index st")
  case None
  then show ?thesis by (simp add: applyFilters_def)
next
  case (Some idx)
  have t: "toLowerCase s = [] \<longleftrightarrow> s = []" for s by (simp add: toLowerCase_def)
  have "filter (text_match query) xs =
        (if toLowerCase (trim query) \<noteq> []
         then filter (\<lambda>a. String_includes
                (toLowerCase (case app_summary.name a of None \<Rightarrow> [] | Some n \<Rightarrow> n))
                (toLowerCase (trim query))) xs
         else xs)" for xs
    by (auto simp: text_match_def contains_ci_def t toLowerCase_def intro!: filter_cong
             split: option.splits)
  moreover have "filter (category_match mode) xs =
        (if mode = ''hasreqs'' then filter (\<lambda>a. has_requirements a) xs
         else if mode = ''dlc'' then filter (\<lambda>a. app_summary.type a = Some ''dlc'') xs
         else if mode = ''game'' then filter (\<lambda>a. app_summary.type a = Some ''game'') xs
         else xs)" for xs
    by (auto simp: category_match_def intro!: filter_cong)
  ultimately show ?thesis
    using Some by (simp add: applyFilters_def catalog_filter_def Let_def)
qed

lemma catalog_filter_idem:
  "catalog_filter (catalog_filter as query mode) query mode = catalog_filter as query mode"
proof -
  let ?zs = "filter (text_match query) (filter (category_match mode) as)"
  have zs: "\<forall>a \<in> set (take 200 ?zs). category_match mode a \<and> text_match query a"
    using set_take_subset [of 200 ?zs] by auto
  then have "filter (category_match mode) (take 200 ?zs) = take 200 ?zs"
    by (intro filter_True) blast
  moreover have "filter (text_match query) (take 200 ?zs) = take 200 ?zs"
    using zs by (intro filter_True) blast
  ultimately have "take 200 (filter (text_match query) (filter (category_match mode) (take 200 ?zs)))
      = take 200 ?zs"
    by (simp only: take_take min.idem)
  then show ?thesis by (simp only: catalog_filter_def)
qed

lemma catalog_filter_length: "length (catalog_filter as query mode) \<le> 200"
  by (simp add: catalog_filter_def)

lemma subseq_take_left: "subseq (take n xs) xs"
proof -
  have "subseq (take n xs) (take n xs @ drop n xs)" by (rule list_emb_prefix) simp
  then show ?thesis by simp
qed

lemma catalog_filter_subseq: "subseq (catalog_filter as query mode) as"
proof -
  have "subseq (catalog_filter as query mode) (filter (text_match query) (filter (category_match mode) as))"
    unfolding catalog_filter_def by (rule subseq_take_left)
  also have "subseq \<dots> (filter (category_match mode) as)" by (rule subseq_filter_left)
  also have "subseq \<dots> as" by (rule subseq_filter_left)
  finally show ?thesis .
qed

text \<open>
  Claim C4. With the index loaded, \<open>applyFilters\<close> sets the result list to the first
  200, in the order of the index, of the entries that pass the text filter among those
  that pass the category filter. The category filter of mode \<open>game\<close> keeps the entries
  of type "game", that of \<open>dlc\<close> those of type "dlc", that of \<open>hasreqs\<close> those with
  \<open>has_requirements\<close> true, and \<open>all\<close> keeps every entry. The text filter keeps every
  entry when the trimmed query is empty, and else the entries whose name has a contiguous
  part equal to the trimmed query once both are in lower case.
\<close>

theorem applyFilters_steps:
  "index st = Some idx \<Longrightarrow>
     applyFilters query mode st =
       Inr (st\<lparr>filtered :=
         take 200 (filter (text_match query) (filter (category_match mode) (apps idx)))\<rparr>) \<and>
     category_match ''game'' a = (app_summary.type a = Some ''game'') \<and>
     category_match ''dlc'' a = (app_summary.type a = Some ''dlc'') \<and>
     category_match ''hasreqs'' a = (has_requirements a = True) \<and>
     category_match ''all'' a = True \<and>
     (trim query = [] \<longrightarrow> text_match query a = True) \<and>
     (trim query \<noteq> [] \<longrightarrow>
        text_match query a =
          (\<exists>n ps w ss. app_summary.name a = Some n \<and> n = ps @ w @ ss \<and>
             toLowerCase w = toLowerCase (trim query)))"
proof -
  assume i: "index st = Some idx"
  have run: "applyFilters query mode st =
       Inr (st\<lparr>filtered :=
         take 200 (filter (text_match query) (filter (category_match mode) (apps idx)))\<rparr>)"
    using i by (simp add: applyFilters_eq catalog_filter_def)
  have cat: "category_match ''game'' a = (app_summary.type a = Some ''game'') \<and>
     category_match ''dlc'' a = (app_summary.type a = Some ''dlc'') \<and>
     category_match ''hasreqs'' a = (has_requirements a = True) \<and>
     category_match ''all'' a = True"
    by (simp add: category_match_def)
  have blank: "trim query = [] \<longrightarrow> text_match query a = True"
    by (simp add: text_match_def)
  have named: "trim query \<noteq> [] \<longrightarrow>
        text_match query a =
          (\<exists>n ps w ss. app_summary.name a = Some n \<and> n = ps @ w @ ss \<and>
             toLowerCase w = toLowerCase (trim query))"
    by (cases "app_summary.name a") (simp_all add: text_match_def contains_ci_iff)
  from run cat blank named show ?thesis by blast
qed

theorem applyFilters_steps_witness:
  "(let a1 = \<lparr>appid = 10, name = Some ''Half-Life'', type = Some ''game'', has_requirements = True\<rparr>;
        a2 = \<lparr>appid = 20, name = Some ''Second Life Pack'', type = Some ''dlc'', has_requirements = False\<rparr>;
        a3 = \<lparr>appid = 30, name = None, type = Some ''game'', has_requirements = True\<rparr>;
        idx = \<lparr>total_apps = 3, shard_size = 1000, apps = [a1, a2, a3]\<rparr>;
        st = \<lparr>index = Some idx, filtered = [], selected = None, specs = None,
               shardCache = Map.empty\<rparr>
    in index st = Some idx \<and>
       applyFilters ''  LIFE '' ''game'' st = Inr (st\<lparr>filtered := [a1]\<rparr>) \<and>
       applyFilters ''  LIFE '' ''all'' st = Inr (st\<lparr>filtered := [a1, a2]\<rparr>) \<and>
       applyFilters ''   '' ''hasreqs'' st = Inr (st\<lparr>filtered := [a1, a3]\<rparr>))"
proof -
  define a1 where "a1 = \<lparr>appid = 10, name = Some ''Half-Life'', type = Some ''game'', has_requirements = True\<rparr>"
  define a2 where "a2 = \<lparr>appid = 20, name = Some ''Second Life Pack'', type = Some ''dlc'', has_requirements = False\<rparr>"
  define a3 where "a3 = \<lparr>appid = 30, name = None, type = Some ''game'', has_requirements = True\<rparr>"
  define idx where "idx = \<lparr>total_apps = 3, shard_size = 1000, apps = [a1, a2, a3]\<rparr>"
  define st where "st = \<lparr>index = Some idx, filtered = [], selected = None, specs = None,
               shardCache = Map.empty\<rparr>"
  have i: "index st = Some idx" by (simp add: st_def)
  have e1: "take 200 (filter (text_match ''  LIFE '') (filter (category_match ''game'') (apps idx))) = [a1]"
    unfolding idx_def a1_def a2_def a3_def by code_simp
  have e2: "take 200 (filter (text_match ''  LIFE '') (filter (category_match ''all'') (apps idx))) = [a1, a2]"
    unfolding idx_def a1_def a2_def a3_def by code_simp
  have e3: "take 200 (filter (text_match ''   '') (filter (category_match ''hasreqs'') (apps idx))) = [a1, a3]"
    unfolding idx_def a1_def a2_def a3_def by code_simp
  have "index st = Some idx \<and>
       applyFilters ''  LIFE '' ''game'' st = Inr (st\<lparr>filtered := [a1]\<rparr>) \<and>
       applyFilters ''  LIFE '' ''all'' st = Inr (st\<lparr>filtered := [a1, a2]\<rparr>) \<and>
       applyFilters ''   '' ''hasreqs'' st = Inr (st\<lparr>filtered := [a1, a3]\<rparr>)"
    using applyFilters_steps [OF i, of "''  LIFE ''" "''game''" a1]
      applyFilters_steps [OF i, of "''  LIFE ''" "''all''" a1]
      applyFilters_steps [OF i, of "''   ''" "''hasreqs''" a1] i e1 e2 e3
    by simp
  then show ?thesis
    by (simp add: Let_def st_def idx_def a1_def a2_def a3_def)
qed


text \<open>
  Claim C5. With the index loaded, running \<open>applyFilters\<close> again on the state it
  returned, with the same query and mode, returns that state again; the result list has
  at most 200 entries; it is a subsequence of the index (its entries are entries of the
  index, in the order of the index); and filtering the result list itself, put in the
  place of the index, gives the result list back.
\<close>

theorem applyFilters_idempotent_bounded_subseq:
  "index st = Some idx \<Longrightarrow> applyFilters query mode st = Inr st' \<Longrightarrow>
     applyFilters query mode st' = Inr st' \<and>
     length (filtered st') \<le> 200 \<and>
     subseq (filtered st') (apps idx) \<and>
     set (filtered st') \<subseteq> set (apps idx) \<and>
     applyFilters query mode (st'\<lparr>index := Some (idx\<lparr>apps := filtered st'\<rparr>)\<rparr>) =
       Inr (st'\<lparr>index := Some (idx\<lparr>apps := filtered st'\<rparr>)\<rparr>)"
proof -
  assume i: "index st = Some idx" and r: "applyFilters query mode st = Inr st'"
  from i r have st': "st' = st\<lparr>filtered := catalog_filter (apps idx) query mode\<rparr>"
    by (simp add: applyFilters_eq)
  then have f: "filtered st' = catalog_filter (apps idx) query mode" and i': "index st' = Some idx"
    using i by simp_all
  have again: "applyFilters query mode st' = Inr st'"
    using i' by (simp add: applyFilters_eq st')
  have len: "length (filtered st') \<le> 200"
    by (simp add: f catalog_filter_length)
  have sub: "subseq (filtered st') (apps idx)"
    by (simp add: f catalog_filter_subseq)
  have mem: "set (filtered st') \<subseteq> set (apps idx)"
  proof
    fix a assume "a \<in> set (filtered st')"
    with sub show "a \<in> set (apps idx)" by (auto elim: list_emb_set)
  qed
  have own: "applyFilters query mode (st'\<lparr>index := Some (idx\<lparr>apps := filtered st'\<rparr>)\<rparr>) =
       Inr (st'\<lparr>index := Some (idx\<lparr>apps := filtered st'\<rparr>)\<rparr>)"
    by (simp add: applyFilters_eq f catalog_filter_idem st')
  from again len sub mem own show ?thesis by (intro conjI)
qed

theorem applyFilters_idempotent_bounded_subseq_witness:
  "(let a1 = \<lparr>appid = 10, name = Some ''Half-Life'', type = Some ''game'', has_requirements = True\<rparr>;
        a2 = \<lparr>appid = 20, name = Some ''Second Life Pack'', type = Some ''dlc'', has_requirements = False\<rparr>;
        a3 = \<lparr>appid = 30, name = None, type = Some ''game'', has_requirements = True\<rparr>;
        idx = \<lparr>total_apps = 3, shard_size = 1000, apps = [a1, a2, a3]\<rparr>;
        st = \<lparr>index = Some idx, filtered = [], selected = None, specs = None,
               shardCache = Map.empty\<rparr>;
        st' = st\<lparr>filtered := [a1, a2]\<rparr>
    in index st = Some idx \<and>
       applyFilters ''life'' ''all'' st = Inr st' \<and>
       applyFilters ''life'' ''all'' st' = Inr st' \<and>
       length (filtered st') \<le> 200 \<and>
       subseq (filtered st') (apps idx))"
proof -
  define a1 where "a1 = \<lparr>appid = 10, name = Some ''Half-Life'', type = Some ''game'', has_requirements = True\<rparr>"
  define a2 where "a2 = \<lparr>appid = 20, name = Some ''Second Life Pack'', type = Some ''dlc'', has_requirements = False\<rparr>"
  define a3 where "a3 = \<lparr>appid = 30, name = None, type = Some ''game'', has_requirements = True\<rparr>"
  define idx where "idx = \<lparr>total_apps = 3, shard_size = 1000, apps = [a1, a2, a3]\<rparr>"
  define st where "st = \<lparr>index = Some idx, filtered = [], selected = None, specs = None,
               shardCache = Map.empty\<rparr>"
  define st' where "st' = st\<lparr>filtered := [a1, a2]\<rparr>"
  have i: "index st = Some idx" by (simp add: st_def)
  have e: "catalog_filter (apps idx) ''life'' ''all'' = [a1, a2]"
    unfolding idx_def a1_def a2_def a3_def by code_simp
  have r: "applyFilters ''life'' ''all'' st = Inr st'"
    using i e by (simp add: applyFilters_eq st'_def)
  have "index st = Some idx \<and>
       applyFilters ''life'' ''all'' st = Inr st' \<and>
       applyFilters ''life'' ''all'' st' = Inr st' \<and>
       length (filtered st') \<le> 200 \<and>
       subseq (filtered st') (apps idx)"
    using applyFilters_idempotent_bounded_subseq [OF i r] i r by (intro conjI) simp_all
  then show ?thesis
    by (simp add: Let_def st'_def st_def idx_def a1_def a2_def a3_def)
qed


section \<open>Shard addressing and the shard cache\<close>















lemma loadShard_error_state:
  "loadShard fetch s st = (Inl e, st1, urls) \<Longrightarrow> st1 = st"
  by (auto simp: loadShard_def Let_def split: option.splits if_splits)



lemma loadShard_phases:
  "loadShard fetch s st =
     (case loadShard_start s st of
        Hit data \<Rightarrow> (Inr data, st, [])
      | Pending url \<Rightarrow>
          (case loadShard_resume s (fetch url) st of (r, st') \<Rightarrow> (r, st', [url])))"
  by (simp add: loadShard_def loadShard_start_def loadShard_resume_def Let_def
        split: option.split)





text \<open>
  Claim C8. When the shard id \<open>s\<close> is not in the cache and the fetch of its URL answers
  with a response that is not \<open>ok\<close>, \<open>loadShard\<close> throws the error "Failed to load
  shard \<open>s\<close>" after that one fetch, and leaves the state as it was: the cache is
  unchanged and still has no entry for \<open>s\<close>.
\<close>

theorem loadShard_fetch_failure:
  "shardCache st s = None \<Longrightarrow> fetch (shardUrl s) = Some res \<Longrightarrow> \<not> ok res \<Longrightarrow>
     loadShard fetch s st =
       (Inl (Error (''Failed to load shard '' @ String_int s)), st, [shardUrl s]) \<and>
     shardCache (fst (snd (loadShard fetch s st))) = shardCache st \<and>
     shardCache (fst (snd (loadShard fetch s st))) s = None"
  by (simp add: loadShard_def)


theorem loadShard_fetch_failure_witness:
  "(let fetch = (\<lambda>url. if url = ''data/shards/shard_00007.json''
                        then Some (Response False None) else None);
        st = \<lparr>index = None, filtered = [], selected = None, specs = None,
               shardCache = Map.empty\<rparr>
    in shardCache st 7 = None \<and>
       fetch (shardUrl 7) = Some (Response False None) \<and>
       \<not> ok (Response False None) \<and>
       loadShard fetch 7 st =
         (Inl (Error ''Failed to load shard 7''), st, [''data/shards/shard_00007.json'']))"
proof -
  define fetch :: network where "fetch = (\<lambda>url. if url = ''data/shards/shard_00007.json''
                        then Some (Response False None) else None)"
  define st where "st = \<lparr>index = None, filtered = [], selected = None, specs = None,
               shardCache = Map.empty\<rparr>"
  have u: "shardUrl 7 = ''data/shards/shard_00007.json''" by code_simp
  have n: "String_int 7 = ''7''" by code_simp
  have c: "shardCache st 7 = None" by (simp add: st_def)
  have f: "fetch (shardUrl 7) = Some (Response False None)" by (simp add: u fetch_def)
  have o: "\<not> ok (Response False None)" by simp
  have "shardCache st 7 = None \<and>
       fetch (shardUrl 7) = Some (Response False None) \<and>
       \<not> ok (Response False None) \<and>
       loadShard fetch 7 st =
         (Inl (Error ''Failed to load shard 7''), st, [''data/shards/shard_00007.json''])"
    using loadShard_fetch_failure [of st 7 fetch "Response False None"] c f o by (simp add: u n)
  then show ?thesis
    unfolding Let_def st_def fetch_def .
qed


section \<open>The profile store\<close>

text \<open>
  Claim C6. Loading after saving a profile returns that profile, whatever was stored
  before; loading after clearing returns \<open>null\<close>, also when a profile had been saved.
\<close>

theorem profile_round_trip:
  "loadSpecs (saveSpecs p ls) = Inr (Some p) \<and>
   loadSpecs (clearSpecs ls) = Inr None \<and>
   loadSpecs (clearSpecs (saveSpecs p ls)) = Inr None \<and>
   loadSpecs (saveSpecs p (saveSpecs p' ls)) = Inr (Some p)"
  by (simp add: loadSpecs_def saveSpecs_def clearSpecs_def JSON_stringify_def JSON_parse_def
        try_catch_def)

text \<open>
  Claim C7. \<open>loadSpecs\<close> returns a value for every content of the storage and never
  throws. It returns \<open>null\<close> when the key is absent, when the stored string is empty,
  and when \<open>JSON.parse\<close> throws on it; when the stored string is the JSON text of a value
  it returns that value.
\<close>

theorem loadSpecs_never_throws:
  "(\<exists>v. loadSpecs ls = Inr v) \<and>
   (ls ''steamSpecChecker_specs'' = None \<longrightarrow> loadSpecs ls = Inr None) \<and>
   (ls ''steamSpecChecker_specs'' = Some raw \<and> JSON_parse raw = Inl e \<longrightarrow> loadSpecs ls = Inr None) \<and>
   (ls ''steamSpecChecker_specs'' = Some Malformed \<longrightarrow> loadSpecs ls = Inr None) \<and>
   (ls ''steamSpecChecker_specs'' = Some Empty_string \<longrightarrow> loadSpecs ls = Inr None) \<and>
   (ls ''steamSpecChecker_specs'' = Some (JSON_text v) \<longrightarrow> loadSpecs ls = Inr v)"
proof -
  have ret: "\<exists>v. loadSpecs ls = Inr v"
    by (simp add: loadSpecs_def try_catch_def JSON_parse_def split: option.split stored.split)
  have absent: "ls ''steamSpecChecker_specs'' = None \<longrightarrow> loadSpecs ls = Inr None"
    by (simp add: loadSpecs_def try_catch_def)
  have thrown: "ls ''steamSpecChecker_specs'' = Some raw \<and> JSON_parse raw = Inl e \<longrightarrow>
      loadSpecs ls = Inr None"
    by (simp add: loadSpecs_def try_catch_def)
  have rest: "(ls ''steamSpecChecker_specs'' = Some Malformed \<longrightarrow> loadSpecs ls = Inr None) \<and>
   (ls ''steamSpecChecker_specs'' = Some Empty_string \<longrightarrow> loadSpecs ls = Inr None) \<and>
   (ls ''steamSpecChecker_specs'' = Some (JSON_text v) \<longrightarrow> loadSpecs ls = Inr v)"
    by (simp add: loadSpecs_def try_catch_def JSON_parse_def)
  from ret absent thrown rest show ?thesis by (intro conjI) simp_all
qed

theorem loadSpecs_never_throws_witness:
  "loadSpecs Map.empty = Inr None \<and>
   JSON_parse Malformed = Inl SyntaxError \<and>
   loadSpecs [''steamSpecChecker_specs'' \<mapsto> Malformed] = Inr None \<and>
   loadSpecs [''steamSpecChecker_specs'' \<mapsto> Empty_string] = Inr None \<and>
   loadSpecs [''steamSpecChecker_specs'' \<mapsto>
       JSON_text (Some \<lparr>cpu = Some ''i5'', gpu = None, ram_gb = Some 16, vram_gb = None,
                         storage_gb = Some 512\<rparr>)] =
     Inr (Some \<lparr>cpu = Some ''i5'', gpu = None, ram_gb = Some 16, vram_gb = None,
                 storage_gb = Some 512\<rparr>)"
proof -
  have p: "JSON_parse Malformed = Inl SyntaxError" by (simp add: JSON_parse_def)
  show ?thesis
    using loadSpecs_never_throws [of Map.empty Malformed SyntaxError None]
      loadSpecs_never_throws [of "[''steamSpecChecker_specs'' \<mapsto> Malformed]" Malformed SyntaxError None]
      loadSpecs_never_throws [of "[''steamSpecChecker_specs'' \<mapsto> Empty_string]" Malformed SyntaxError None]
      loadSpecs_never_throws [of "[''steamSpecChecker_specs'' \<mapsto>
       JSON_text (Some \<lparr>cpu = Some ''i5'', gpu = None, ram_gb = Some 16, vram_gb = None,
                         storage_gb = Some 512\<rparr>)]" Malformed SyntaxError
         "Some \<lparr>cpu = Some ''i5'', gpu = None, ram_gb = Some 16, vram_gb = None,
                         storage_gb = Some 512\<rparr>"] p
    by simp
qed

section \<open>The badge of a requirement card\<close>

text \<open>
  Claim C9. For a requirement record that is present, the card made for it compares RAM,
  VRAM and storage of the profile with those of the record, and the class of its badge
  is that of the status \<open>bad\<close> exactly when one of the three comparisons is \<open>bad\<close>, and
  that of \<open>good\<close> otherwise: so also when the three comparisons are \<open>unknown\<close>, as they
  are without a profile, where the label of the badge is "Set your specs" in place of
  "Compared".
\<close>

theorem renderReqCard_badge:
  "\<exists>c. renderReqCard title (Some req) userSpecs = Some c \<and>
     ramCmp c = compareNumeric (optional_field specs.ram_gb userSpecs) (requirement.ram_gb req) \<and>
     vramCmp c = compareNumeric (optional_field specs.vram_gb userSpecs) (requirement.vram_gb req) \<and>
     stoCmp c = compareNumeric (optional_field specs.storage_gb userSpecs) (requirement.storage_gb req) \<and>
     (badge_class c = ''badge bad'') =
       (status (ramCmp c) = Bad \<or> status (vramCmp c) = Bad \<or> status (stoCmp c) = Bad) \<and>
     (badge_class c = ''badge good'') =
       (status (ramCmp c) \<noteq> Bad \<and> status (vramCmp c) \<noteq> Bad \<and> status (stoCmp c) \<noteq> Bad) \<and>
     (status (ramCmp c) = Unknown \<and> status (vramCmp c) = Unknown \<and> status (stoCmp c) = Unknown
        \<longrightarrow> badge_class c = ''badge good'') \<and>
     (userSpecs = None \<longrightarrow> badge_class c = ''badge good'' \<and> badge_label c = ''Set your specs'') \<and>
     (userSpecs \<noteq> None \<longrightarrow> badge_label c = ''Compared'')"
proof -
  have u: "status (compareNumeric Undefined r) = Unknown" for r
    by (simp add: compareNumeric_def)
  show ?thesis
    by (cases userSpecs) (auto simp: renderReqCard_def Let_def optional_field_def u)
qed

theorem renderReqCard_badge_witness:
  "(let req = \<lparr>requirement.os = Some ''Windows 10'', requirement.cpu = None, requirement.gpu = None,
               requirement.ram_gb = Num (Fin 8), requirement.vram_gb = Null,
               requirement.storage_gb = Num (Fin 50), directx = Undefined, opengl = Undefined,
               vulkan = None, notes' = None\<rparr>;
        low = \<lparr>cpu = None, gpu = None, ram_gb = Some 4, vram_gb = Some 2, storage_gb = None\<rparr>;
        high = \<lparr>cpu = None, gpu = None, ram_gb = Some 16, vram_gb = None, storage_gb = Some 50\<rparr>
    in map_option badge_class (renderReqCard ''Minimum'' (Some req) (Some low)) = Some ''badge bad'' \<and>
       map_option badge_class (renderReqCard ''Minimum'' (Some req) (Some high)) = Some ''badge good'' \<and>
       map_option badge_class (renderReqCard ''Minimum'' (Some req) None) = Some ''badge good'' \<and>
       map_option badge_label (renderReqCard ''Minimum'' (Some req) None) = Some ''Set your specs'')"
proof -
  define req where "req = \<lparr>requirement.os = Some ''Windows 10'', requirement.cpu = None, requirement.gpu = None,
               requirement.ram_gb = Num (Fin 8), requirement.vram_gb = Null,
               requirement.storage_gb = Num (Fin 50), directx = Undefined, opengl = Undefined,
               vulkan = None, notes' = None\<rparr>"
  define low where "low = \<lparr>cpu = None, gpu = None, ram_gb = Some 4, vram_gb = Some 2, storage_gb = None\<rparr>"
  define high where "high = \<lparr>cpu = None, gpu = None, ram_gb = Some 16, vram_gb = None, storage_gb = Some 50\<rparr>"
  have l: "status (compareNumeric (optional_field specs.ram_gb (Some low)) (requirement.ram_gb req)) = Bad"
    by (simp add: compareNumeric_def optional_field_def ge_def low_def req_def)
  have h: "status (compareNumeric (optional_field specs.ram_gb (Some high)) (requirement.ram_gb req)) = Good"
    "status (compareNumeric (optional_field specs.vram_gb (Some high)) (requirement.vram_gb req)) = Unknown"
    "status (compareNumeric (optional_field specs.storage_gb (Some high)) (requirement.storage_gb req)) = Good"
    by (simp_all add: compareNumeric_def optional_field_def ge_def high_def req_def)
  have 1: "map_option badge_class (renderReqCard ''Minimum'' (Some req) (Some low)) = Some ''badge bad''"
    using renderReqCard_badge [of "''Minimum''" req "Some low"] l by auto
  have 2: "map_option badge_class (renderReqCard ''Minimum'' (Some req) (Some high)) = Some ''badge good''"
    using renderReqCard_badge [of "''Minimum''" req "Some high"] h by auto
  have 3: "map_option badge_class (renderReqCard ''Minimum'' (Some req) None) = Some ''badge good'' \<and>
       map_option badge_label (renderReqCard ''Minimum'' (Some req) None) = Some ''Set your specs''"
    using renderReqCard_badge [of "''Minimum''" req None] by auto
  from 1 2 3 have "map_option badge_class (renderReqCard ''Minimum'' (Some req) (Some low)) = Some ''badge bad'' \<and>
       map_option badge_class (renderReqCard ''Minimum'' (Some req) (Some high)) = Some ''badge good'' \<and>
       map_option badge_class (renderReqCard ''Minimum'' (Some req) None) = Some ''badge good'' \<and>
       map_option badge_label (renderReqCard ''Minimum'' (Some req) None) = Some ''Set your specs''"
    by (intro conjI) simp_all
  then show ?thesis
    unfolding Let_def req_def low_def high_def .
qed


section \<open>Numbers read from the profile form\<close>
















end
